theory Spec2Isabelle
  imports Main
begin

section \<open>Python values shared by both scripts\<close>

text \<open>
  The repository holds two Python scripts: \<^verbatim>\<open>setup_streamlit.py\<close>, which pickles a
  result table, and \<^verbatim>\<open>streamlit_app.py\<close>, a Streamlit dashboard that Streamlit runs
  from top to bottom once per user interaction. Both are modelled as functions from an
  explicit environment (files, importable modules, the user's widget input) to the
  effects they produce.

  An exception object of class \<^verbatim>\<open>Exception\<close> is \<open>PyException\<close> with its text. A
  dictionary slot that may be missing, hold \<^verbatim>\<open>None\<close>, or hold a value is a \<open>slot\<close>.
\<close>

datatype pyexc = PyException string

datatype 'a slot = Absent | PyNone | Val 'a

text \<open>
  A cell of the result table. Floats and timestamps are carried by their printed
  form and never interpreted; \<open>CNaN\<close> stands for the missing values that
  \<^verbatim>\<open>pd.notna\<close> rejects (\<^verbatim>\<open>NaN\<close>, \<^verbatim>\<open>NaT\<close>, \<^verbatim>\<open>None\<close>).
\<close>

datatype cell = CStr string | CInt int | CFloat string | CTime string | CNaN

type_synonym row = "(string \<times> cell) list"

type_synonym table = "row list"

definition notna :: "cell \<Rightarrow> bool" where
  "notna c = (c \<noteq> CNaN)"

text \<open>\<^verbatim>\<open>row.get(key, default)\<close> and \<^verbatim>\<open>row[key]\<close>, which raises \<^verbatim>\<open>KeyError\<close>.\<close>

definition row_get :: "row \<Rightarrow> string \<Rightarrow> cell \<Rightarrow> cell" where
  "row_get r k d = (case map_of r k of None \<Rightarrow> d | Some v \<Rightarrow> v)"

definition row_item :: "row \<Rightarrow> string \<Rightarrow> pyexc + cell" where
  "row_item r k = (case map_of r k of None \<Rightarrow> Inl (PyException ''KeyError'') | Some v \<Rightarrow> Inr v)"

section \<open>setup\_streamlit.py\<close>

text \<open>
  The environment of \<^verbatim>\<open>save_for_streamlit\<close>: the two names it looks up in
  \<^verbatim>\<open>globals()\<close>, and whether \<^verbatim>\<open>open(name, 'wb')\<close> and \<^verbatim>\<open>pickle.dump\<close> raise
  (\<open>Some\<close> exception) or succeed (\<open>None\<close>). Writing to the console is taken to
  succeed. The printed texts are given without their leading check-mark glyph.
\<close>

record save_env =
  g_full_pivot_df :: "table option"
  g_test_pivot_df :: "table option"
  open_wb :: "string \<Rightarrow> pyexc option"
  pickle_dump :: "table \<Rightarrow> string \<Rightarrow> pyexc option"

datatype effect = Opened string | Dumped table string | Printed string

text \<open>
  A computation inside a \<^verbatim>\<open>try\<close> block yields the effects it got to and the exception
  that ended it, if one did.

  \<open>save_table\<close> is one \<^verbatim>\<open>with open(...) as f: pickle.dump(df, f)\<close> followed by its
  \<^verbatim>\<open>print\<close>.
\<close>

definition save_table :: "save_env \<Rightarrow> string \<Rightarrow> table \<Rightarrow> effect list \<times> pyexc option" where
  "save_table e name df =
     (case open_wb e name of
        Some x \<Rightarrow> ([], Some x)
      | None \<Rightarrow>
          (case pickle_dump e df name of
             Some x \<Rightarrow> ([Opened name], Some x)
           | None \<Rightarrow> ([Opened name, Dumped df name, Printed (''Saved '' @ name)], None)))"

text \<open>The body of the \<^verbatim>\<open>try\<close> block (lines 14 to 28).\<close>

definition save_body :: "save_env \<Rightarrow> effect list \<times> pyexc option" where
  "save_body e =
     (let (fx, r) =
        (case g_full_pivot_df e of
           Some df \<Rightarrow> save_table e ''full_pivot_df.pkl'' df
         | None \<Rightarrow>
             (case g_test_pivot_df e of
                Some df \<Rightarrow> save_table e ''test_pivot_df.pkl'' df
              | None \<Rightarrow> ([], None)))
      in case r of
           Some x \<Rightarrow> (fx, Some x)
         | None \<Rightarrow>
             (fx @ [Printed ''Functions will be imported directly from notebook context'',
                    Printed ''To use Streamlit app:'',
                    Printed ''1. Make sure this script has run'',
                    Printed ''2. Run: streamlit run streamlit_app.py''], None))"

text \<open>
  The whole function: the \<^verbatim>\<open>except Exception as e\<close> handler prints the error. The
  second component is the exception that reaches the caller.
\<close>

definition save_for_streamlit :: "save_env \<Rightarrow> effect list \<times> pyexc option" where
  "save_for_streamlit e =
     (case save_body e of
        (fx, Some (PyException m)) \<Rightarrow> (fx @ [Printed (''Error: '' @ m)], None)
      | (fx, None) \<Rightarrow> (fx, None))"

fun writes_file :: "effect \<Rightarrow> bool" where
  "writes_file (Opened n) = True"
| "writes_file (Dumped t n) = True"
| "writes_file (Printed m) = False"

section \<open>streamlit\_app.py: the environment\<close>

text \<open>
  The date widget returns a calendar date; line 113 renders it with
  \<^verbatim>\<open>strftime("%Y-%m-%d")\<close>. The widget is bounded to the year 2011, so the year has
  four digits.
\<close>

datatype date = Date nat nat nat

definition digit :: "nat \<Rightarrow> char" where
  "digit n = ''0123456789'' ! (n mod 10)"

fun strftime_Ymd :: "date \<Rightarrow> string" where
  "strftime_Ymd (Date y m d) =
     [digit (y div 1000), digit (y div 100), digit (y div 10), digit y, CHR ''-'',
      digit (m div 10), digit m, CHR ''-'', digit (d div 10), digit d]"

text \<open>
  The attribution artifacts (\<^verbatim>\<open>shap_values\<close>, \<^verbatim>\<open>X\<close>, \<^verbatim>\<open>explainer\<close>, \<^verbatim>\<open>scaler\<close>) are
  opaque objects that the script only passes on. In \<open>aux_context\<close> the value \<open>None\<close>
  is Python's \<^verbatim>\<open>None\<close>.
\<close>

datatype artifact = Artifact nat

record aux_context =
  aux_shap_values :: "artifact option"
  aux_X :: "artifact option"
  aux_explainer :: "artifact option"
  aux_scaler :: "artifact option"

text \<open>
  What \<^verbatim>\<open>explain_single_anomaly\<close> returns when it returns a dictionary: the two keys
  the script reads (\<^verbatim>\<open>'explanation'\<close>, \<^verbatim>\<open>'anomaly'\<close>), each missing, \<^verbatim>\<open>None\<close> or
  present, and the names of any other keys.
\<close>

record explain_result =
  r_explanation :: "string slot"
  r_anomaly :: "row slot"
  r_other_keys :: "string list"

text \<open>
  The two external functions. \<^verbatim>\<open>get_anomalies_by_date(date_str, df)\<close> raises, returns
  \<^verbatim>\<open>None\<close> or returns a table; \<^verbatim>\<open>explain_single_anomaly(date_str, index, df, shap_values,
  X, explainer, scaler)\<close> raises, returns \<^verbatim>\<open>None\<close> or returns a dictionary.
\<close>

type_synonym query_fn = "string \<Rightarrow> table \<Rightarrow> pyexc + table option"

type_synonym explain_fn =
  "string \<Rightarrow> nat \<Rightarrow> table \<Rightarrow> aux_context \<Rightarrow> pyexc + explain_result option"

text \<open>
  The attributes of the module \<^verbatim>\<open>__main__\<close> that the script looks up. The two
  tables are tested with \<^verbatim>\<open>hasattr\<close> and then read, so each is missing (\<open>Absent\<close>),
  there with the value \<^verbatim>\<open>None\<close> (\<open>PyNone\<close>), or there with a table. The others are read
  with \<^verbatim>\<open>getattr(..., None)\<close>, where \<open>None\<close> is an attribute that is not there or is
  \<^verbatim>\<open>None\<close>.
\<close>

record main_module =
  m_full_pivot_df :: "table slot"
  m_test_pivot_df :: "table slot"
  m_get_anomalies_by_date :: "query_fn option"
  m_explain_single_anomaly :: "explain_fn option"
  m_shap_values :: "artifact option"
  m_X :: "artifact option"
  m_explainer :: "artifact option"
  m_scaler :: "artifact option"

text \<open>
  Reading a snapshot file that exists (\<^verbatim>\<open>open\<close> and \<^verbatim>\<open>pickle.load\<close>) yields the value
  it holds, a table or \<^verbatim>\<open>None\<close>, or raises. A \<^verbatim>\<open>from m import a, b\<close> statement succeeds, raises
  \<^verbatim>\<open>ImportError\<close>, or raises something else.
\<close>

datatype unpickle = Unpickled "table option" | Unpickle_raises pyexc

datatype 'a import_result = Imported 'a | Import_error | Import_raises pyexc

text \<open>
  Library functions the script calls on cells:
  \<^verbatim>\<open>pd.to_datetime(c).strftime('%Y-%m-%d %H:%M:%S')\<close> and the format \<^verbatim>\<open>f"{c:.2%}"\<close>.
  Both may raise.
\<close>

record pylib =
  fmt_time :: "cell \<Rightarrow> pyexc + string"
  fmt_pct :: "cell \<Rightarrow> pyexc + string"

text \<open>
  The environment of one run of the script. \<open>file_full_pivot_df\<close> and
  \<open>file_test_pivot_df\<close> are the files \<^verbatim>\<open>full_pivot_df.pkl\<close> and \<^verbatim>\<open>test_pivot_df.pkl\<close>
  (\<open>None\<close>: \<^verbatim>\<open>os.path.exists\<close> is false). \<open>import_main\<close> is \<^verbatim>\<open>import __main__\<close>
  (\<open>None\<close>: it raises). \<open>import_code_new\<close> is \<^verbatim>\<open>import code_new\<close> with the two
  \<^verbatim>\<open>getattr\<close> results (\<open>None\<close>: it raises).
\<close>

record env =
  file_full_pivot_df :: "unpickle option"
  file_test_pivot_df :: "unpickle option"
  import_main :: "main_module option"
  import_anomaly_functions :: "(query_fn \<times> explain_fn) import_result"
  import_code_new :: "(query_fn option \<times> explain_fn option) option"
  lib :: pylib

text \<open>
  What the user did before this run: the date in the date widget, whether the
  \<^verbatim>\<open>Find Anomalies\<close> button was pressed, the option the select box returns for the
  options it is given, and whether the \<^verbatim>\<open>Generate LLM Explanation\<close> button was
  pressed.
\<close>

record ui =
  date_input :: date
  find_clicked :: bool
  selectbox :: "nat list \<Rightarrow> nat"
  generate_clicked :: bool

text \<open>\<^verbatim>\<open>st.session_state\<close>, with the six keys the script uses.\<close>

record session =
  ss_prediction_df :: "table slot"
  ss_functions_loaded :: "bool slot"
  ss_selected_date :: "string slot"
  ss_anomalies :: "table slot"
  ss_selected_anomaly :: "explain_result slot"
  ss_selected_index :: "nat slot"

text \<open>
  What a run shows and calls, in order. Message texts are named rather than spelled
  out; the ones that embed data carry it.
\<close>

datatype message =
    Required_functions_not_found
  | Fix_functions_instructions
  | Prediction_DataFrame_not_found
  | Fix_dataframe_instructions
  | No_anomalies_detected string
  | Try_different_date
  | Found_anomalies nat string
  | Failed_to_generate
  | Error_generating pyexc
  | Error_loading_anomalies pyexc
  | Please_select_date

record summary_entry =
  se_index :: nat
  se_time :: string
  se_activity :: cell
  se_confidence :: string

datatype event =
    Page_header
  | St_error message
  | St_info message
  | St_warning message
  | St_success message
  | St_exception pyexc
  | Date_input
  | Find_button
  | Call_get_anomalies string
  | Detected_anomalies_table "summary_entry list"
  | St_selectbox "nat list"
  | Generate_button
  | Spinner
  | Call_explain string nat aux_context
  | Report string
  | Details_header
  | St_metric string cell
  | How_to_use
  | Footer

text \<open>
  A run ends at the last line, at \<^verbatim>\<open>st.stop()\<close>, or with an exception nothing caught.
\<close>

datatype outcome = Completed | Stopped | Crashed pyexc

section \<open>streamlit\_app.py: loading data and functions\<close>

text \<open>Lines 18 to 21: the two keys are created when they are missing.\<close>

definition init_session :: "session \<Rightarrow> session" where
  "init_session s =
     (let s1 = (if ss_prediction_df s = Absent then s\<lparr>ss_prediction_df := PyNone\<rparr> else s)
      in if ss_functions_loaded s1 = Absent then s1\<lparr>ss_functions_loaded := Val False\<rparr> else s1)"

text \<open>
  \<^verbatim>\<open>load_prediction_data\<close> (lines 25 to 34), as Streamlit evaluates it when its cache
  holds no entry for it. Nothing catches what \<^verbatim>\<open>open\<close> or \<^verbatim>\<open>pickle.load\<close> raise.
\<close>

definition read_snapshot :: "unpickle \<Rightarrow> pyexc + table option" where
  "read_snapshot u = (case u of Unpickled v \<Rightarrow> Inr v | Unpickle_raises x \<Rightarrow> Inl x)"

definition load_prediction_data :: "env \<Rightarrow> pyexc + table option" where
  "load_prediction_data e =
     (case file_full_pivot_df e of
        Some u \<Rightarrow> read_snapshot u
      | None \<Rightarrow>
          (case file_test_pivot_df e of
             Some u \<Rightarrow> read_snapshot u
           | None \<Rightarrow> Inr None))"

text \<open>The value of an attribute that is there.\<close>

fun attribute_value :: "table slot \<Rightarrow> table option" where
  "attribute_value (Val t) = Some t"
| "attribute_value PyNone = None"
| "attribute_value Absent = None"

text \<open>
  Lines 61 to 68: the lookup in \<^verbatim>\<open>__main__\<close>, inside \<^verbatim>\<open>try ... except: pass\<close>. The
  first attribute that \<^verbatim>\<open>hasattr\<close> finds is taken, whatever it holds.
\<close>

definition main_fallback :: "env \<Rightarrow> table option" where
  "main_fallback e =
     (case import_main e of
        None \<Rightarrow> None
      | Some m \<Rightarrow>
          if m_full_pivot_df m \<noteq> Absent then attribute_value (m_full_pivot_df m)
          else if m_test_pivot_df m \<noteq> Absent then attribute_value (m_test_pivot_df m)
          else None)"

text \<open>
  Lines 58 to 68: the value of \<^verbatim>\<open>prediction_df\<close>, or the exception that ends the run.
  The lookup in \<^verbatim>\<open>__main__\<close> happens when what \<^verbatim>\<open>load_prediction_data\<close> returned is
  \<^verbatim>\<open>None\<close>.
\<close>

definition load_result_store :: "env \<Rightarrow> pyexc + table option" where
  "load_result_store e =
     (case load_prediction_data e of
        Inl x \<Rightarrow> Inl x
      | Inr (Some t) \<Rightarrow> Inr (Some t)
      | Inr None \<Rightarrow> Inr (main_fallback e))"

text \<open>
  The specification's reading of the loader, to compare with the code: the four
  sources in their priority order, what an attempt at one source gives (\<open>None\<close> when
  the source does not resolve: it is not there, or it holds \<^verbatim>\<open>None\<close> instead of a
  table), and the first source in the order that resolves.
\<close>

datatype source = Snapshot_full | Snapshot_test | Memory_full | Memory_test

definition priority :: "source list" where
  "priority = [Snapshot_full, Snapshot_test, Memory_full, Memory_test]"

fun read_outcome :: "unpickle option \<Rightarrow> (pyexc + table) option" where
  "read_outcome None = None"
| "read_outcome (Some (Unpickled None)) = None"
| "read_outcome (Some (Unpickled (Some t))) = Some (Inr t)"
| "read_outcome (Some (Unpickle_raises x)) = Some (Inl x)"

fun attempt :: "env \<Rightarrow> source \<Rightarrow> (pyexc + table) option" where
  "attempt e Snapshot_full = read_outcome (file_full_pivot_df e)"
| "attempt e Snapshot_test = read_outcome (file_test_pivot_df e)"
| "attempt e Memory_full =
     (case import_main e of
        None \<Rightarrow> None
      | Some m \<Rightarrow> map_option Inr (attribute_value (m_full_pivot_df m)))"
| "attempt e Memory_test =
     (case import_main e of
        None \<Rightarrow> None
      | Some m \<Rightarrow> map_option Inr (attribute_value (m_test_pivot_df m)))"



definition no_source :: "env \<Rightarrow> bool" where
  "no_source e = list_all (\<lambda>src. attempt e src = None) priority"

text \<open>No source that is there holds \<^verbatim>\<open>None\<close>.\<close>

definition sources_hold_tables :: "env \<Rightarrow> bool" where
  "sources_hold_tables e =
     (file_full_pivot_df e \<noteq> Some (Unpickled None) \<and>
      file_test_pivot_df e \<noteq> Some (Unpickled None) \<and>
      (case import_main e of
         None \<Rightarrow> True
       | Some m \<Rightarrow> m_full_pivot_df m \<noteq> PyNone \<and> m_test_pivot_df m \<noteq> PyNone))"

text \<open>\<^verbatim>\<open>load_functions\<close> (lines 37 to 55).\<close>

definition load_functions :: "env \<Rightarrow> query_fn option \<times> explain_fn option" where
  "load_functions e =
     (case import_code_new e of
        Some (q, x) \<Rightarrow> (q, x)
      | None \<Rightarrow>
          (case import_main e of
             Some m \<Rightarrow> (m_get_anomalies_by_date m, m_explain_single_anomaly m)
           | None \<Rightarrow> (None, None)))"

text \<open>
  Lines 71 to 85: the two functions, or the way the run ends here. Only
  \<^verbatim>\<open>ImportError\<close> is caught.
\<close>

definition import_functions ::
  "env \<Rightarrow> session \<Rightarrow> event list \<times> session \<times> (outcome + query_fn \<times> explain_fn)" where
  "import_functions e s =
     (case import_anomaly_functions e of
        Imported fs \<Rightarrow> ([], s\<lparr>ss_functions_loaded := Val True\<rparr>, Inr fs)
      | Import_raises x \<Rightarrow> ([], s, Inl (Crashed x))
      | Import_error \<Rightarrow>
          (case load_functions e of
             (Some q, Some x) \<Rightarrow> ([], s, Inr (q, x))
           | _ \<Rightarrow>
               ([St_error Required_functions_not_found, St_info Fix_functions_instructions],
                s, Inl Stopped)))"

definition functions_available :: "env \<Rightarrow> bool" where
  "functions_available e =
     (case import_anomaly_functions e of
        Imported fs \<Rightarrow> True
      | Import_raises x \<Rightarrow> False
      | Import_error \<Rightarrow>
          (case load_functions e of (Some q, Some x) \<Rightarrow> True | _ \<Rightarrow> False))"

section \<open>streamlit\_app.py: the session workflow\<close>

text \<open>Lines 118 to 121: what pressing \<^verbatim>\<open>Find Anomalies\<close> does to the session state.\<close>

definition on_find :: "string \<Rightarrow> session \<Rightarrow> session" where
  "on_find d s =
     s\<lparr>ss_selected_date := Val d, ss_anomalies := PyNone,
       ss_selected_anomaly := PyNone, ss_selected_index := PyNone\<rparr>"

text \<open>Lines 104 to 121: the sidebar.\<close>

definition sidebar :: "ui \<Rightarrow> session \<Rightarrow> event list \<times> session" where
  "sidebar u s =
     ([Date_input, Find_button],
      if find_clicked u then on_find (strftime_Ymd (date_input u)) s else s)"

text \<open>
  Line 124: the key \<^verbatim>\<open>'selected_date'\<close> is in the session state and its value is
  truthy (a string that is not empty).
\<close>

definition confirmed_date :: "session \<Rightarrow> string option" where
  "confirmed_date s =
     (case ss_selected_date s of
        Val d \<Rightarrow> if d \<noteq> [] then Some d else None
      | _ \<Rightarrow> None)"

text \<open>
  Lines 144 to 153: one entry of the summary table. \<^verbatim>\<open>anomaly['Timestamp']\<close> raises
  when the column is missing; the two \<^verbatim>\<open>get\<close> calls have defaults.
\<close>

definition summary_row :: "pylib \<Rightarrow> nat \<Rightarrow> row \<Rightarrow> pyexc + summary_entry" where
  "summary_row l idx r =
     (case row_item r ''Timestamp'' of
        Inl x \<Rightarrow> Inl x
      | Inr ts \<Rightarrow>
          (let activity = row_get r ''Activity'' (CStr ''Unknown'');
               confidence = row_get r ''Prediction_Confidence'' (CInt 0)
           in case (if notna ts then fmt_time l ts else Inr ''N/A'') of
                Inl x \<Rightarrow> Inl x
              | Inr t \<Rightarrow>
                  (case fmt_pct l confidence of
                     Inl x \<Rightarrow> Inl x
                   | Inr c \<Rightarrow>
                       Inr \<lparr>se_index = idx, se_time = t, se_activity = activity,
                            se_confidence = c\<rparr>)))"

text \<open>Lines 142 to 153: the loop over \<^verbatim>\<open>enumerate(anomalies.iterrows())\<close>.\<close>

fun anomaly_summary :: "pylib \<Rightarrow> nat \<Rightarrow> table \<Rightarrow> pyexc + summary_entry list" where
  "anomaly_summary l idx [] = Inr []"
| "anomaly_summary l idx (r # rs) =
     (case summary_row l idx r of
        Inl x \<Rightarrow> Inl x
      | Inr en \<Rightarrow>
          (case anomaly_summary l (Suc idx) rs of
             Inl x \<Rightarrow> Inl x
           | Inr ens \<Rightarrow> Inr (en # ens)))"

text \<open>
  Lines 173 to 185: the attribution artifacts, each \<^verbatim>\<open>None\<close> unless \<^verbatim>\<open>__main__\<close> has
  it.
\<close>

definition gather_shap :: "env \<Rightarrow> aux_context" where
  "gather_shap e =
     (case import_main e of
        None \<Rightarrow>
          \<lparr>aux_shap_values = None, aux_X = None, aux_explainer = None, aux_scaler = None\<rparr>
      | Some m \<Rightarrow>
          \<lparr>aux_shap_values = m_shap_values m, aux_X = m_X m,
           aux_explainer = m_explainer m, aux_scaler = m_scaler m\<rparr>)"

text \<open>
  Line 197: \<^verbatim>\<open>result and 'explanation' in result and result['explanation']\<close>. A
  dictionary is truthy when it has a key.
\<close>

definition dict_truthy :: "explain_result \<Rightarrow> bool" where
  "dict_truthy r = (r_explanation r \<noteq> Absent \<or> r_anomaly r \<noteq> Absent \<or> r_other_keys r \<noteq> [])"

definition accepted :: "explain_result option \<Rightarrow> (explain_result \<times> string) option" where
  "accepted res =
     (case res of
        None \<Rightarrow> None
      | Some r \<Rightarrow>
          if dict_truthy r then
            (case r_explanation r of
               Val t \<Rightarrow> if t \<noteq> [] then Some (r, t) else None
             | _ \<Rightarrow> None)
          else None)"

text \<open>
  Lines 234 to 244: the details of the anomaly the generator returned. The events are
  the ones shown before an exception, if any, was raised. \<^verbatim>\<open>None.get\<close> raises
  \<^verbatim>\<open>AttributeError\<close>.
\<close>

definition anomaly_details :: "pylib \<Rightarrow> explain_result \<Rightarrow> event list \<times> pyexc option" where
  "anomaly_details l r =
     (case r_anomaly r of
        Absent \<Rightarrow> ([], None)
      | PyNone \<Rightarrow> ([Details_header], Some (PyException ''AttributeError''))
      | Val a \<Rightarrow>
          (case (if notna (row_get a ''Timestamp'' CNaN)
                 then fmt_time l (row_get a ''Timestamp'' (CStr ''N/A''))
                 else Inr ''N/A'') of
             Inl x \<Rightarrow> ([Details_header], Some x)
           | Inr t \<Rightarrow>
               (let shown = [Details_header, St_metric ''Timestamp'' (CStr t),
                             St_metric ''Activity'' (row_get a ''Activity'' (CStr ''Unknown''))]
                in case fmt_pct l (row_get a ''Prediction_Confidence'' (CInt 0)) of
                     Inl x \<Rightarrow> (shown, Some x)
                   | Inr c \<Rightarrow> (shown @ [St_metric ''Confidence'' (CStr c)], None))))"

text \<open>
  Lines 170 to 251: the handler of \<^verbatim>\<open>Generate LLM Explanation\<close>. \<open>Report t\<close> stands
  for lines 201 to 231, which show the explanation text \<open>t\<close>. Every exception is caught
  by the handler at line 248.
\<close>

definition generate ::
  "env \<Rightarrow> explain_fn \<Rightarrow> string \<Rightarrow> nat \<Rightarrow> table \<Rightarrow> session \<Rightarrow> event list \<times> session" where
  "generate e x d i df s =
     (let aux = gather_shap e;
          started = [Spinner, Call_explain d i aux]
      in case x d i df aux of
           Inl exc \<Rightarrow> (started @ [St_error (Error_generating exc), St_exception exc], s)
         | Inr res \<Rightarrow>
             (case accepted res of
                None \<Rightarrow> (started @ [St_error Failed_to_generate], s)
              | Some (r, t) \<Rightarrow>
                  (let s' = s\<lparr>ss_selected_anomaly := Val r\<rparr>
                   in case anomaly_details (lib e) r of
                        (shown, None) \<Rightarrow> (started @ [Report t] @ shown, s')
                      | (shown, Some exc) \<Rightarrow>
                          (started @ [Report t] @ shown @
                             [St_error (Error_generating exc), St_exception exc], s'))))"

text \<open>Lines 134 to 251: the branch for a query result that has rows.\<close>

definition show_anomalies ::
  "env \<Rightarrow> ui \<Rightarrow> explain_fn \<Rightarrow> table \<Rightarrow> string \<Rightarrow> table \<Rightarrow> session \<Rightarrow> event list \<times> session" where
  "show_anomalies e u x df d rows s =
     (let s1 = s\<lparr>ss_anomalies := Val rows\<rparr>;
          found = [St_success (Found_anomalies (length rows) d)]
      in case anomaly_summary (lib e) 0 rows of
           Inl exc \<Rightarrow> (found @ [St_error (Error_loading_anomalies exc), St_exception exc], s1)
         | Inr sm \<Rightarrow>
             (let options = [0..<length rows];
                  i = selectbox u options;
                  s2 = s1\<lparr>ss_selected_index := Val i\<rparr>;
                  listed = found @ [Detected_anomalies_table sm, St_selectbox options,
                                    Generate_button]
              in if generate_clicked u
                 then (let (evs, s3) = generate e x d i df s2 in (listed @ evs, s3))
                 else (listed, s2)))"

text \<open>Lines 127 to 256: the query and what follows it, inside the outer \<^verbatim>\<open>try\<close>.\<close>

definition analysis ::
  "env \<Rightarrow> ui \<Rightarrow> query_fn \<Rightarrow> explain_fn \<Rightarrow> table \<Rightarrow> string \<Rightarrow> session \<Rightarrow> event list \<times> session" where
  "analysis e u q x df d s =
     (case q d df of
        Inl exc \<Rightarrow>
          ([Call_get_anomalies d, St_error (Error_loading_anomalies exc), St_exception exc], s)
      | Inr None \<Rightarrow>
          ([Call_get_anomalies d, St_warning (No_anomalies_detected d), St_info Try_different_date], s)
      | Inr (Some rows) \<Rightarrow>
          if length rows = 0
          then ([Call_get_anomalies d, St_warning (No_anomalies_detected d),
                 St_info Try_different_date], s)
          else (let (evs, s') = show_anomalies e u x df d rows s
                in (Call_get_anomalies d # evs, s')))"

text \<open>Lines 104 to 279: the script once data and functions are there.\<close>

definition workflow ::
  "env \<Rightarrow> ui \<Rightarrow> query_fn \<Rightarrow> explain_fn \<Rightarrow> table \<Rightarrow> session \<Rightarrow> event list \<times> session" where
  "workflow e u q x df s =
     (let (side, s1) = sidebar u s;
          (body, s2) =
            (case confirmed_date s1 of
               Some d \<Rightarrow> analysis e u q x df d s1
             | None \<Rightarrow> ([St_info Please_select_date, How_to_use], s1))
      in (side @ body @ [Footer], s2))"

text \<open>One run of the script, from the session state the previous run left.\<close>

definition run :: "env \<Rightarrow> ui \<Rightarrow> session \<Rightarrow> event list \<times> session \<times> outcome" where
  "run e u s0 =
     (let s = init_session s0
      in case load_result_store e of
           Inl exc \<Rightarrow> ([Page_header], s, Crashed exc)
         | Inr pdf \<Rightarrow>
             (case import_functions e s of
                (evs, s1, Inl out) \<Rightarrow> (Page_header # evs, s1, out)
              | (evs, s1, Inr (q, x)) \<Rightarrow>
                  (case pdf of
                     None \<Rightarrow>
                       (Page_header # evs @
                          [St_error Prediction_DataFrame_not_found,
                           St_info Fix_dataframe_instructions], s1, Stopped)
                   | Some df \<Rightarrow>
                       (let (shown, s2) = workflow e u q x df s1
                        in (Page_header # evs @ shown, s2, Completed)))))"

text \<open>Events that belong to date selection, the anomaly query or an explanation request.\<close>

fun proceeds :: "event \<Rightarrow> bool" where
  "proceeds Date_input = True"
| "proceeds Find_button = True"
| "proceeds (Call_get_anomalies d) = True"
| "proceeds Generate_button = True"
| "proceeds (Call_explain d i aux) = True"
| "proceeds ev = False"

fun is_error :: "event \<Rightarrow> bool" where
  "is_error (St_error m) = True"
| "is_error (St_exception x) = True"
| "is_error ev = False"

text \<open>
  The ways the generator fails: it raises; it returns a falsy result (\<^verbatim>\<open>None\<close> or a
  dictionary without keys); it returns a dictionary without the key \<^verbatim>\<open>'explanation'\<close>;
  or the explanation it returns is \<^verbatim>\<open>None\<close> or the empty string.
\<close>

definition generator_failed :: "pyexc + explain_result option \<Rightarrow> bool" where
  "generator_failed res =
     (case res of
        Inl exc \<Rightarrow> True
      | Inr None \<Rightarrow> True
      | Inr (Some r) \<Rightarrow>
          \<not> dict_truthy r \<or> r_explanation r = Absent \<or> r_explanation r = PyNone
          \<or> r_explanation r = Val [])"

text \<open>Events that show an explanation or a part of one.\<close>

fun shows_explanation :: "event \<Rightarrow> bool" where
  "shows_explanation (Report t) = True"
| "shows_explanation Details_header = True"
| "shows_explanation (St_metric n c) = True"
| "shows_explanation ev = False"

definition no_aux :: aux_context where
  "no_aux = \<lparr>aux_shap_values = None, aux_X = None, aux_explainer = None, aux_scaler = None\<rparr>"

section \<open>Example inputs\<close>

text \<open>
  A store with three records on 2011-06-01 and one on 2011-06-03, a query that selects
  the records whose timestamp starts with the date, and a generator that reports on
  the record at the index it is given.
\<close>

definition example_store :: table where
  "example_store =
     [[(''Timestamp'', CTime ''2011-06-01 08:15:00''), (''Activity'', CStr ''Sleeping''),
       (''Prediction_Confidence'', CFloat ''0.91'')],
      [(''Timestamp'', CTime ''2011-06-01 12:30:00''), (''Activity'', CStr ''Cooking''),
       (''Prediction_Confidence'', CFloat ''0.91'')],
      [(''Timestamp'', CTime ''2011-06-01 23:05:00''),
       (''Prediction_Confidence'', CFloat ''0.91'')],
      [(''Timestamp'', CTime ''2011-06-03 07:00:00''), (''Activity'', CStr ''Bathing'')]]"

definition example_lib :: pylib where
  "example_lib =
     \<lparr>fmt_time = (\<lambda>c. case c of CTime t \<Rightarrow> Inr t | _ \<Rightarrow> Inl (PyException ''ValueError'')),
      fmt_pct = (\<lambda>c. if c = CInt 0 then Inr ''0.00%''
                      else if c = CFloat ''0.91'' then Inr ''91.00%''
                      else if c = CNaN then Inr ''nan%''
                      else Inl (PyException ''ValueError''))\<rparr>"

definition on_date :: "string \<Rightarrow> row \<Rightarrow> bool" where
  "on_date d r = (case map_of r ''Timestamp'' of Some (CTime t) \<Rightarrow> take 10 t = d | _ \<Rightarrow> False)"

definition example_query :: query_fn where
  "example_query d df = Inr (Some (filter (on_date d) df))"

definition example_explain :: explain_fn where
  "example_explain d i df aux =
     (let rows = filter (on_date d) df
      in if i < length rows
         then Inr (Some \<lparr>r_explanation = Val ''ANOMALY ANALYSIS REPORT'',
                          r_anomaly = Val (rows ! i), r_other_keys = []\<rparr>)
         else Inl (PyException ''IndexError''))"

definition example_env :: env where
  "example_env =
     \<lparr>file_full_pivot_df = None,
      file_test_pivot_df = Some (Unpickled (Some example_store)),
      import_main = None,
      import_anomaly_functions = Imported (example_query, example_explain),
      import_code_new = None,
      lib = example_lib\<rparr>"



definition none_snapshot_only_env :: env where
  "none_snapshot_only_env = example_env\<lparr>file_full_pivot_df := Some (Unpickled None)\<rparr>"

definition broken_import_env :: env where
  "broken_import_env =
     example_env\<lparr>file_test_pivot_df := None,
       import_anomaly_functions := Import_raises (PyException ''SyntaxError'')\<rparr>"

text \<open>
  A record of a table that has the columns \<^verbatim>\<open>Activity\<close> and
  \<^verbatim>\<open>Prediction_Confidence\<close>, in which both cells are missing.
\<close>

definition nan_record :: row where
  "nan_record =
     [(''Timestamp'', CTime ''2011-06-01 08:15:00''), (''Activity'', CNaN),
      (''Prediction_Confidence'', CNaN)]"

definition empty_env :: env where
  "empty_env = example_env\<lparr>file_test_pivot_df := None\<rparr>"

definition blank_session :: session where
  "blank_session =
     \<lparr>ss_prediction_df = Absent, ss_functions_loaded = Absent, ss_selected_date = Absent,
      ss_anomalies = Absent, ss_selected_anomaly = Absent, ss_selected_index = Absent\<rparr>"

definition example_ui :: ui where
  "example_ui =
     \<lparr>date_input = Date 2011 6 1, find_clicked = True, selectbox = (\<lambda>options. 2),
      generate_clicked = True\<rparr>"

section \<open>The loader\<close>

lemma read_outcome_table:
  "read_outcome f = Some (Inr t) \<longleftrightarrow> f = Some (Unpickled (Some t))"
  by (cases f rule: read_outcome.cases) auto


lemma attribute_value_None: "attribute_value v = None \<longleftrightarrow> v = Absent \<or> v = PyNone"
  by (cases v) auto







section \<open>Data unavailability\<close>

lemma strftime_Ymd_nonempty: "strftime_Ymd dt \<noteq> []"
  by (cases dt) simp

lemma read_outcome_None:
  "read_outcome f = None \<longleftrightarrow> f = None \<or> f = Some (Unpickled None)"
  by (cases f rule: read_outcome.cases) auto

lemma no_source_load: "no_source e \<Longrightarrow> load_result_store e = Inr None"
  by (auto simp add: load_result_store_def load_prediction_data_def no_source_def
        main_fallback_def priority_def read_snapshot_def attribute_value_None
        read_outcome_None
      split: option.splits)

lemma load_None_tables:
  "sources_hold_tables e \<Longrightarrow> load_result_store e = Inr None \<Longrightarrow> no_source e"
  by (auto simp add: load_result_store_def load_prediction_data_def no_source_def
        main_fallback_def priority_def read_snapshot_def attribute_value_None
        sources_hold_tables_def
      split: option.splits unpickle.splits sum.splits if_splits)

lemma details_no_df_error:
  "anomaly_details l r = (evs, ex) \<Longrightarrow> St_error Prediction_DataFrame_not_found \<notin> set evs"
  by (auto simp: anomaly_details_def Let_def split: slot.splits sum.splits if_splits)

lemma generate_no_df_error:
  "generate e x d i df s = (evs, s') \<Longrightarrow> St_error Prediction_DataFrame_not_found \<notin> set evs"
  by (auto simp: generate_def Let_def split: sum.splits option.splits prod.splits
           dest: details_no_df_error)

lemma show_anomalies_no_df_error:
  "show_anomalies e u x df d rows s = (evs, s') \<Longrightarrow>
     St_error Prediction_DataFrame_not_found \<notin> set evs"
  by (auto simp: show_anomalies_def Let_def split: sum.splits prod.splits if_splits
           dest: generate_no_df_error)

lemma analysis_no_df_error:
  "analysis e u q x df d s = (evs, s') \<Longrightarrow> St_error Prediction_DataFrame_not_found \<notin> set evs"
  by (auto simp: analysis_def Let_def split: sum.splits option.splits prod.splits if_splits
           dest: show_anomalies_no_df_error)

lemma workflow_no_df_error:
  "workflow e u q x df s = (evs, s') \<Longrightarrow> St_error Prediction_DataFrame_not_found \<notin> set evs"
  by (auto simp: workflow_def sidebar_def Let_def split: option.splits prod.splits if_splits
           dest: analysis_no_df_error)

lemma import_functions_events:
  "import_functions e s = (evs, s1, r) \<Longrightarrow>
     St_error Prediction_DataFrame_not_found \<notin> set evs \<and> \<not> list_ex proceeds evs"
  by (auto simp: import_functions_def split: import_result.splits prod.splits option.splits)

lemma import_functions_available:
  "functions_available e \<Longrightarrow> \<exists>s1 q x. import_functions e s = ([], s1, Inr (q, x))"
  by (auto simp: import_functions_def functions_available_def
      split: import_result.splits prod.splits option.splits)

lemma import_functions_halt:
  "import_functions e s = (evs, s1, Inl out) \<Longrightarrow> out \<noteq> Completed"
  by (auto simp: import_functions_def split: import_result.splits prod.splits option.splits)

lemma import_functions_cases:
  "(\<forall>x. import_anomaly_functions e \<noteq> Import_raises x) \<Longrightarrow>
     (\<exists>s1 q x. import_functions e s = ([], s1, Inr (q, x))) \<or>
     import_functions e s =
       ([St_error Required_functions_not_found, St_info Fix_functions_instructions], s,
        Inl Stopped)"
  by (auto simp: import_functions_def split: import_result.splits prod.splits option.splits)


text \<open>
  C2, as the code has it. The run shows the error \<^verbatim>\<open>Prediction DataFrame not found!\<close>
  only when the loader yielded \<^verbatim>\<open>None\<close>; when no source that is there holds
  \<^verbatim>\<open>None\<close>, that is only when no source resolves: both snapshot files are absent and
  \<^verbatim>\<open>__main__\<close> has neither table. When no source resolves the loader yields \<^verbatim>\<open>None\<close>.
  Whenever the loader yields \<^verbatim>\<open>None\<close>, the run never completes and nothing of date
  selection, the anomaly query or an explanation request happens in it; unless
  importing \<^verbatim>\<open>anomaly_functions\<close> raises something other than \<^verbatim>\<open>ImportError\<close>, the run
  shows one error and one block of corrective instructions and stops at
  \<^verbatim>\<open>st.stop()\<close>; and when the two required functions were found, the error is exactly
  the one about the missing data.
\<close>

theorem data_unavailable_halts:
  "(St_error Prediction_DataFrame_not_found \<in> set (fst (run e u s)) \<longrightarrow>
      load_result_store e = Inr None) \<and>
   (sources_hold_tables e \<and> St_error Prediction_DataFrame_not_found \<in> set (fst (run e u s))
      \<longrightarrow> no_source e) \<and>
   (no_source e \<longrightarrow> load_result_store e = Inr None) \<and>
   (load_result_store e = Inr None \<longrightarrow>
      snd (snd (run e u s)) \<noteq> Completed \<and> \<not> list_ex proceeds (fst (run e u s))) \<and>
   (load_result_store e = Inr None \<and> (\<forall>x. import_anomaly_functions e \<noteq> Import_raises x) \<longrightarrow>
      snd (snd (run e u s)) = Stopped \<and>
      (\<exists>m i. fst (run e u s) = [Page_header, St_error m, St_info i])) \<and>
   (load_result_store e = Inr None \<and> functions_available e \<longrightarrow>
      fst (run e u s) =
        [Page_header, St_error Prediction_DataFrame_not_found, St_info Fix_dataframe_instructions]
      \<and> snd (snd (run e u s)) = Stopped)"
proof -
  obtain evs s1 r where imp: "import_functions e (init_session s) = (evs, s1, r)"
    by (cases "import_functions e (init_session s)") auto
  have only_if: "load_result_store e = Inr None"
    if shown: "St_error Prediction_DataFrame_not_found \<in> set (fst (run e u s))"
  proof (rule ccontr)
    assume ne: "load_result_store e \<noteq> Inr None"
    from import_functions_events [OF imp]
    have "St_error Prediction_DataFrame_not_found \<notin> set evs" by simp
    with ne imp have "St_error Prediction_DataFrame_not_found \<notin> set (fst (run e u s))"
      by (auto simp: run_def Let_def split: sum.splits option.splits prod.splits
               dest: workflow_no_df_error)
    with shown show False by simp
  qed
  have halts: "snd (snd (run e u s)) \<noteq> Completed \<and> \<not> list_ex proceeds (fst (run e u s))"
    if ld: "load_result_store e = Inr None"
  proof -
    from import_functions_events [OF imp] import_functions_halt [of e "init_session s" evs s1]
    show ?thesis
      using ld imp by (cases r) (auto simp: run_def Let_def)
  qed
  have stops: "snd (snd (run e u s)) = Stopped \<and>
        (\<exists>m i. fst (run e u s) = [Page_header, St_error m, St_info i])"
    if caught: "load_result_store e = Inr None \<and>
                (\<forall>x. import_anomaly_functions e \<noteq> Import_raises x)"
  proof -
    from caught import_functions_cases [of e "init_session s"]
    show ?thesis
      by (auto simp: run_def Let_def)
  qed
  have message: "fst (run e u s) =
        [Page_header, St_error Prediction_DataFrame_not_found, St_info Fix_dataframe_instructions]
      \<and> snd (snd (run e u s)) = Stopped"
    if both: "load_result_store e = Inr None \<and> functions_available e"
  proof -
    from both have ld: "load_result_store e = Inr None" and fa: "functions_available e"
      by simp_all
    from import_functions_available [OF fa, of "init_session s"]
    obtain s2 q x where "import_functions e (init_session s) = ([], s2, Inr (q, x))"
      by blast
    with ld show ?thesis
      by (simp add: run_def Let_def)
  qed
  have c1: "St_error Prediction_DataFrame_not_found \<in> set (fst (run e u s)) \<longrightarrow>
      load_result_store e = Inr None"
    using only_if by simp
  have c2: "sources_hold_tables e \<and>
      St_error Prediction_DataFrame_not_found \<in> set (fst (run e u s)) \<longrightarrow> no_source e"
    using only_if load_None_tables [of e] by simp
  have c3: "no_source e \<longrightarrow> load_result_store e = Inr None"
    using no_source_load [of e] by simp
  have c4: "load_result_store e = Inr None \<longrightarrow>
      snd (snd (run e u s)) \<noteq> Completed \<and> \<not> list_ex proceeds (fst (run e u s))"
    using halts by simp
  have c5: "load_result_store e = Inr None \<and>
      (\<forall>x. import_anomaly_functions e \<noteq> Import_raises x) \<longrightarrow>
      snd (snd (run e u s)) = Stopped \<and>
      (\<exists>m i. fst (run e u s) = [Page_header, St_error m, St_info i])"
    using stops by simp
  have c6: "load_result_store e = Inr None \<and> functions_available e \<longrightarrow>
      fst (run e u s) =
        [Page_header, St_error Prediction_DataFrame_not_found, St_info Fix_dataframe_instructions]
      \<and> snd (snd (run e u s)) = Stopped"
    using message by simp
  show ?thesis
    by (intro conjI) (rule c1, rule c2, rule c3, rule c4, rule c5, rule c6)
qed

theorem data_unavailable_halts_witness:
  "no_source empty_env \<and> sources_hold_tables empty_env \<and> functions_available empty_env \<and>
   load_result_store empty_env = Inr None \<and>
   fst (run empty_env example_ui blank_session) =
     [Page_header, St_error Prediction_DataFrame_not_found, St_info Fix_dataframe_instructions] \<and>
   snd (snd (run empty_env example_ui blank_session)) = Stopped \<and>
   \<not> list_ex proceeds (fst (run empty_env example_ui blank_session))"
proof -
  have ns: "no_source empty_env"
    by (simp add: no_source_def priority_def empty_env_def example_env_def)
  have ht: "sources_hold_tables empty_env"
    by (simp add: sources_hold_tables_def empty_env_def example_env_def)
  have fa: "functions_available empty_env"
    by (simp add: functions_available_def empty_env_def example_env_def)
  note halts = data_unavailable_halts [of empty_env example_ui blank_session]
  from halts [THEN conjunct2, THEN conjunct2, THEN conjunct1] ns
  have ld: "load_result_store empty_env = Inr None"
    by (rule mp)
  from halts [THEN conjunct2, THEN conjunct2, THEN conjunct2, THEN conjunct1] ld
  have quiet: "snd (snd (run empty_env example_ui blank_session)) \<noteq> Completed \<and>
               \<not> list_ex proceeds (fst (run empty_env example_ui blank_session))"
    by (rule mp)
  from halts [THEN conjunct2, THEN conjunct2, THEN conjunct2, THEN conjunct2, THEN conjunct2]
       conjI [OF ld fa]
  have shown: "fst (run empty_env example_ui blank_session) =
     [Page_header, St_error Prediction_DataFrame_not_found, St_info Fix_dataframe_instructions] \<and>
     snd (snd (run empty_env example_ui blank_session)) = Stopped"
    by (rule mp)
  from ns ht fa ld quiet shown show ?thesis
    by blast
qed

text \<open>
  C2, as stated, fails twice. With \<^verbatim>\<open>full_pivot_df.pkl\<close> holding a pickled \<^verbatim>\<open>None\<close>
  and \<^verbatim>\<open>test_pivot_df.pkl\<close> holding the store, a source resolves and yet the run shows
  the data error and stops. With no source at all and an import of
  \<^verbatim>\<open>anomaly_functions\<close> that raises an error other than \<^verbatim>\<open>ImportError\<close>, the run ends
  with that exception and shows no error with corrective instructions.
\<close>

theorem data_unavailable_counterexample:
  "attempt none_snapshot_only_env Snapshot_test = Some (Inr example_store) \<and>
   \<not> no_source none_snapshot_only_env \<and>
   run none_snapshot_only_env example_ui blank_session =
     ([Page_header, St_error Prediction_DataFrame_not_found, St_info Fix_dataframe_instructions],
      \<lparr>ss_prediction_df = PyNone, ss_functions_loaded = Val True, ss_selected_date = Absent,
       ss_anomalies = Absent, ss_selected_anomaly = Absent, ss_selected_index = Absent\<rparr>,
      Stopped) \<and>
   no_source broken_import_env \<and>
   run broken_import_env example_ui blank_session =
     ([Page_header],
      \<lparr>ss_prediction_df = PyNone, ss_functions_loaded = Val False, ss_selected_date = Absent,
       ss_anomalies = Absent, ss_selected_anomaly = Absent, ss_selected_index = Absent\<rparr>,
      Crashed (PyException ''SyntaxError''))"
  by (simp add: none_snapshot_only_env_def broken_import_env_def example_env_def no_source_def
        priority_def run_def init_session_def load_result_store_def load_prediction_data_def
        read_snapshot_def main_fallback_def import_functions_def blank_session_def Let_def)

section \<open>Confirming a date\<close>

lemma on_find_confirmed:
  "confirmed_date (on_find (strftime_Ymd dt) s) = Some (strftime_Ymd dt)"
  by (simp add: confirmed_date_def on_find_def strftime_Ymd_nonempty)

lemma on_find_forgets:
  "on_find d (s\<lparr>ss_anomalies := a, ss_selected_anomaly := b, ss_selected_index := c\<rparr>)
     = on_find d s"
  by (simp add: on_find_def)

lemma init_session_selection:
  "init_session (s\<lparr>ss_anomalies := a, ss_selected_anomaly := b, ss_selected_index := c\<rparr>)
     = (init_session s)\<lparr>ss_anomalies := a, ss_selected_anomaly := b, ss_selected_index := c\<rparr>"
  by (simp add: init_session_def Let_def)

lemma import_functions_selection:
  "import_functions e (s\<lparr>ss_anomalies := a, ss_selected_anomaly := b, ss_selected_index := c\<rparr>)
     = (case import_functions e s of
          (evs, s1, r) \<Rightarrow>
            (evs, s1\<lparr>ss_anomalies := a, ss_selected_anomaly := b, ss_selected_index := c\<rparr>, r))"
  by (simp add: import_functions_def split: import_result.splits prod.splits option.splits)

lemma workflow_find:
  "find_clicked u \<Longrightarrow>
     workflow e u q x df s =
       (case analysis e u q x df (strftime_Ymd (date_input u))
               (on_find (strftime_Ymd (date_input u)) s) of
          (body, s2) \<Rightarrow> ([Date_input, Find_button] @ body @ [Footer], s2))"
  by (simp add: workflow_def sidebar_def on_find_confirmed split: prod.splits)

text \<open>
  C3. Whatever the session state was before (a chosen anomaly and a stored explanation
  included), pressing \<^verbatim>\<open>Find Anomalies\<close> sets the anomaly list, the selected
  anomaly with its explanation, and the selected index to \<^verbatim>\<open>None\<close>; the query for the
  new date runs on the state so reset; and the whole run, its final session state
  included, is the same whatever those three entries held before: nothing stale survives
  the confirmation. (The button exists only in a run that found the data and the
  functions.)
\<close>

theorem find_anomalies_resets_selection:
  assumes "find_clicked u" and "d = strftime_Ymd (date_input u)"
    and "load_result_store e = Inr (Some df)" and "functions_available e"
  shows "ss_anomalies (on_find d s) = PyNone \<and>
         ss_selected_anomaly (on_find d s) = PyNone \<and>
         ss_selected_index (on_find d s) = PyNone \<and>
         ss_selected_date (on_find d s) = Val d \<and>
         workflow e u q x df s =
           (case analysis e u q x df d (on_find d s) of
              (body, s2) \<Rightarrow> ([Date_input, Find_button] @ body @ [Footer], s2)) \<and>
         run e u (s\<lparr>ss_anomalies := a, ss_selected_anomaly := b, ss_selected_index := c\<rparr>)
           = run e u s"
proof -
  have reset: "ss_anomalies (on_find d s) = PyNone \<and>
         ss_selected_anomaly (on_find d s) = PyNone \<and>
         ss_selected_index (on_find d s) = PyNone \<and>
         ss_selected_date (on_find d s) = Val d"
    by (simp add: on_find_def)
  have wf: "workflow e u q x df s =
           (case analysis e u q x df d (on_find d s) of
              (body, s2) \<Rightarrow> ([Date_input, Find_button] @ body @ [Footer], s2))" for q x df s
    using assms(1,2) by (simp add: workflow_find)
  have same: "workflow e u q x df
                 (s1\<lparr>ss_anomalies := a, ss_selected_anomaly := b, ss_selected_index := c\<rparr>)
              = workflow e u q x df s1" for q x df s1
    by (simp add: wf on_find_forgets)
  from import_functions_available [OF assms(4), of "init_session s"]
  obtain s1 q' x' where "import_functions e (init_session s) = ([], s1, Inr (q', x'))"
    by blast
  with assms(3)
  have "run e u (s\<lparr>ss_anomalies := a, ss_selected_anomaly := b, ss_selected_index := c\<rparr>)
           = run e u s"
    by (simp add: run_def Let_def init_session_selection import_functions_selection same
             split: prod.splits)
  with reset wf show ?thesis by simp
qed

theorem find_anomalies_resets_selection_witness:
  "find_clicked example_ui \<and> functions_available example_env \<and>
   load_result_store example_env = Inr (Some example_store) \<and>
   ss_selected_anomaly (on_find ''2011-06-01'' blank_session) = PyNone \<and>
   run example_env example_ui
     (blank_session\<lparr>ss_anomalies := Val example_store,
        ss_selected_anomaly :=
          Val \<lparr>r_explanation = Val ''old report'', r_anomaly = Absent, r_other_keys = []\<rparr>,
        ss_selected_index := Val 7\<rparr>)
     = run example_env example_ui blank_session"
proof -
  have h1: "find_clicked example_ui"
    by (simp add: example_ui_def)
  have h2: "''2011-06-01'' = strftime_Ymd (date_input example_ui)"
    by (simp add: example_ui_def digit_def)
  have h3: "load_result_store example_env = Inr (Some example_store)"
    by (simp add: load_result_store_def load_prediction_data_def read_snapshot_def
          example_env_def)
  have h4: "functions_available example_env"
    by (simp add: functions_available_def example_env_def)
  from find_anomalies_resets_selection [OF h1 h2 h3 h4, of blank_session]
  show ?thesis using h1 h3 h4 by simp
qed

section \<open>A date without anomalies\<close>

lemma analysis_empty:
  "q d df = Inr None \<or> q d df = Inr (Some []) \<Longrightarrow>
     analysis e u q x df d s =
       ([Call_get_anomalies d, St_warning (No_anomalies_detected d), St_info Try_different_date], s)"
  by (auto simp: analysis_def)

text \<open>
  C4. In a run that has the data and the functions and a confirmed date \<open>d\<close>, when the
  query finds nothing for \<open>d\<close> (it returns \<^verbatim>\<open>None\<close> or a table without rows), the run
  shows the warning \<^verbatim>\<open>No anomalies detected on d\<close> and the hint to try another date,
  shows no error (in particular not the store-unavailable error), keeps the date
  confirmed in the session state, and runs to its last line.
\<close>

theorem no_anomalies_is_not_an_error:
  assumes "load_result_store e = Inr (Some df)"
    and "import_functions e (init_session s) = (evs, s1, Inr (q, x))"
    and "confirmed_date (snd (sidebar u s1)) = Some d"
    and "q d df = Inr None \<or> q d df = Inr (Some [])"
  shows "run e u s =
           ([Page_header, Date_input, Find_button, Call_get_anomalies d,
             St_warning (No_anomalies_detected d), St_info Try_different_date, Footer],
            snd (sidebar u s1), Completed) \<and>
         \<not> list_ex is_error (fst (run e u s)) \<and>
         St_error Prediction_DataFrame_not_found \<notin> set (fst (run e u s))"
proof -
  from assms(2) have "evs = []"
    by (auto simp: import_functions_def split: import_result.splits prod.splits option.splits)
  moreover have "analysis e u q x df d (snd (sidebar u s1)) =
       ([Call_get_anomalies d, St_warning (No_anomalies_detected d), St_info Try_different_date],
        snd (sidebar u s1))"
    using assms(4) by (rule analysis_empty)
  ultimately have "run e u s =
           ([Page_header, Date_input, Find_button, Call_get_anomalies d,
             St_warning (No_anomalies_detected d), St_info Try_different_date, Footer],
            snd (sidebar u s1), Completed)"
    using assms(1,2,3) by (simp add: run_def workflow_def Let_def sidebar_def split: prod.splits)
  then show ?thesis by simp
qed

theorem no_anomalies_is_not_an_error_witness:
  "run example_env (example_ui\<lparr>date_input := Date 2011 6 2\<rparr>) blank_session =
     ([Page_header, Date_input, Find_button, Call_get_anomalies ''2011-06-02'',
       St_warning (No_anomalies_detected ''2011-06-02''), St_info Try_different_date, Footer],
      \<lparr>ss_prediction_df = PyNone, ss_functions_loaded = Val True,
       ss_selected_date = Val ''2011-06-02'', ss_anomalies = PyNone,
       ss_selected_anomaly = PyNone, ss_selected_index = PyNone\<rparr>, Completed)"
proof -
  let ?u = "example_ui\<lparr>date_input := Date 2011 6 2\<rparr>"
  let ?s1 = "(init_session blank_session)\<lparr>ss_functions_loaded := Val True\<rparr>"
  have h1: "load_result_store example_env = Inr (Some example_store)"
    by (simp add: load_result_store_def load_prediction_data_def read_snapshot_def
          example_env_def)
  have h2: "import_functions example_env (init_session blank_session)
              = ([], ?s1, Inr (example_query, example_explain))"
    by (simp add: import_functions_def example_env_def)
  have h3: "confirmed_date (snd (sidebar ?u ?s1)) = Some ''2011-06-02''"
    by (simp add: sidebar_def example_ui_def confirmed_date_def on_find_def digit_def)
  have h4: "example_query ''2011-06-02'' example_store = Inr None
            \<or> example_query ''2011-06-02'' example_store = Inr (Some [])"
    by (simp add: example_query_def example_store_def on_date_def)
  from no_anomalies_is_not_an_error [OF h1 h2 h3 h4]
  show ?thesis
    by (simp add: sidebar_def example_ui_def on_find_def init_session_def blank_session_def
          digit_def)
qed

section \<open>A failed explanation\<close>

lemma generate_failed:
  "x d i df (gather_shap e) = res \<Longrightarrow> generator_failed res \<Longrightarrow>
     generate e x d i df s =
       (case res of
          Inl exc \<Rightarrow>
            ([Spinner, Call_explain d i (gather_shap e), St_error (Error_generating exc),
              St_exception exc], s)
        | Inr v \<Rightarrow>
            ([Spinner, Call_explain d i (gather_shap e), St_error Failed_to_generate], s))"
  by (auto simp: generate_def generator_failed_def accepted_def Let_def
           split: sum.splits option.splits slot.splits)

text \<open>
  C5. When the generator fails (it raises, returns a falsy result, returns a result
  without the key \<^verbatim>\<open>'explanation'\<close>, or returns an empty explanation), the handler
  leaves the session state as it was, the stored result
  \<^verbatim>\<open>session_state['selected_anomaly']\<close> included; it shows nothing of an explanation;
  what it shows is the call followed by one of the two generic errors; and the session
  state after the run is the one the run would have left had the button not been
  pressed, so the anomaly list and the selected index are in place for another request.
\<close>

theorem generator_failure_keeps_state:
  assumes "x d i df (gather_shap e) = res" and "generator_failed res"
  shows "snd (generate e x d i df s) = s \<and>
         \<not> list_ex shows_explanation (fst (generate e x d i df s)) \<and>
         (fst (generate e x d i df s) =
            [Spinner, Call_explain d i (gather_shap e), St_error Failed_to_generate]
          \<or> (\<exists>exc. fst (generate e x d i df s) =
            [Spinner, Call_explain d i (gather_shap e), St_error (Error_generating exc),
             St_exception exc])) \<and>
         (anomaly_summary (lib e) 0 rows = Inr sm \<longrightarrow> i = selectbox u [0..<length rows] \<longrightarrow>
          generate_clicked u \<longrightarrow>
            snd (show_anomalies e u x df d rows s0)
              = snd (show_anomalies e (u\<lparr>generate_clicked := False\<rparr>) x df d rows s0))"
proof -
  have gf: "generate e x d i df s =
       (case res of
          Inl exc \<Rightarrow>
            ([Spinner, Call_explain d i (gather_shap e), St_error (Error_generating exc),
              St_exception exc], s)
        | Inr v \<Rightarrow>
            ([Spinner, Call_explain d i (gather_shap e), St_error Failed_to_generate], s))" for s
    using assms by (rule generate_failed)
  have a: "snd (generate e x d i df s) = s" for s
    by (simp add: gf split: sum.splits)
  have b: "\<not> list_ex shows_explanation (fst (generate e x d i df s))"
    by (simp add: gf split: sum.splits)
  have c: "fst (generate e x d i df s) =
            [Spinner, Call_explain d i (gather_shap e), St_error Failed_to_generate]
          \<or> (\<exists>exc. fst (generate e x d i df s) =
            [Spinner, Call_explain d i (gather_shap e), St_error (Error_generating exc),
             St_exception exc])"
    by (simp add: gf split: sum.splits)
  have d: "snd (show_anomalies e u x df d rows s0)
              = snd (show_anomalies e (u\<lparr>generate_clicked := False\<rparr>) x df d rows s0)"
    if "anomaly_summary (lib e) 0 rows = Inr sm" "i = selectbox u [0..<length rows]"
       "generate_clicked u"
    using that a [of "s0\<lparr>ss_anomalies := Val rows, ss_selected_index := Val i\<rparr>"]
    by (auto simp add: show_anomalies_def Let_def split: prod.splits)
  from a b c d show ?thesis by blast
qed

theorem generator_failure_keeps_state_witness:
  "generator_failed (Inl (PyException ''RuntimeError'')) \<and>
   generator_failed (Inr None) \<and>
   generator_failed
     (Inr (Some \<lparr>r_explanation = Absent, r_anomaly = Val [], r_other_keys = []\<rparr>)) \<and>
   generator_failed
     (Inr (Some \<lparr>r_explanation = Val [], r_anomaly = Val [], r_other_keys = []\<rparr>)) \<and>
   generate example_env (\<lambda>d i df aux. Inl (PyException ''RuntimeError'')) ''2011-06-01'' 2
       example_store blank_session
     = ([Spinner, Call_explain ''2011-06-01'' 2 no_aux,
         St_error (Error_generating (PyException ''RuntimeError'')),
         St_exception (PyException ''RuntimeError'')], blank_session) \<and>
   snd (generate example_env (\<lambda>d i df aux. Inr None) ''2011-06-01'' 2
         example_store blank_session) = blank_session \<and>
   snd (generate example_env
         (\<lambda>d i df aux.
            Inr (Some \<lparr>r_explanation = Absent, r_anomaly = Val [], r_other_keys = []\<rparr>))
         ''2011-06-01'' 2 example_store blank_session) = blank_session \<and>
   snd (generate example_env
         (\<lambda>d i df aux.
            Inr (Some \<lparr>r_explanation = Val [], r_anomaly = Val [], r_other_keys = []\<rparr>))
         ''2011-06-01'' 2 example_store blank_session) = blank_session"
proof -
  have f1: "generator_failed (Inl (PyException ''RuntimeError''))"
    by (simp add: generator_failed_def)
  have f2: "generator_failed (Inr None)"
    by (simp add: generator_failed_def dict_truthy_def)
  have f3: "generator_failed
     (Inr (Some \<lparr>r_explanation = Absent, r_anomaly = Val [], r_other_keys = []\<rparr>))"
    by (simp add: generator_failed_def dict_truthy_def)
  have f4: "generator_failed
     (Inr (Some \<lparr>r_explanation = Val [], r_anomaly = Val [], r_other_keys = []\<rparr>))"
    by (simp add: generator_failed_def dict_truthy_def)
  have aux: "gather_shap example_env = no_aux"
    by (simp add: gather_shap_def example_env_def no_aux_def)
  from generator_failure_keeps_state
         [of "\<lambda>d i df aux. Inl (PyException ''RuntimeError'')" "''2011-06-01''" 2
             example_store example_env, OF refl f1, of blank_session]
       generator_failure_keeps_state
         [of "\<lambda>d i df aux. Inr None" "''2011-06-01''" 2
             example_store example_env, OF refl f2, of blank_session]
       generator_failure_keeps_state
         [of "\<lambda>d i df aux.
            Inr (Some \<lparr>r_explanation = Absent, r_anomaly = Val [], r_other_keys = []\<rparr>)"
            "''2011-06-01''" 2 example_store example_env, OF refl f3, of blank_session]
       generator_failure_keeps_state
         [of "\<lambda>d i df aux.
            Inr (Some \<lparr>r_explanation = Val [], r_anomaly = Val [], r_other_keys = []\<rparr>)"
            "''2011-06-01''" 2 example_store example_env, OF refl f4, of blank_session]
  show ?thesis
    using f1 f2 f3 f4 by (simp add: generate_def aux)
qed

section \<open>Missing fields of a record\<close>

lemma row_get_default: "map_of r k = None \<Longrightarrow> row_get r k d = d"
  by (simp add: row_get_def)

lemma anomaly_summary_rows:
  "anomaly_summary l idx rows = Inr ens \<Longrightarrow>
     length ens = length rows \<and>
     (\<forall>j<length rows. summary_row l (idx + j) (rows ! j) = Inr (ens ! j))"
proof (induction rows arbitrary: idx ens)
  case Nil
  then show ?case by simp
next
  case (Cons r rs)
  from Cons.prems obtain en ens' where
    en: "summary_row l idx r = Inr en" and
    rest: "anomaly_summary l (Suc idx) rs = Inr ens'" and
    ens: "ens = en # ens'"
    by (auto split: sum.splits)
  from Cons.IH [OF rest] have
    len: "length ens' = length rs" and
    each: "\<forall>j<length rs. summary_row l (Suc idx + j) (rs ! j) = Inr (ens' ! j)"
    by simp_all
  show ?case
  proof (intro conjI allI impI)
    show "length ens = length (r # rs)"
      using len ens by simp
  next
    fix j
    assume "j < length (r # rs)"
    then show "summary_row l (idx + j) ((r # rs) ! j) = Inr (ens ! j)"
      using en each ens by (cases j) simp_all
  qed
qed

text \<open>
  C7, as the code has it. A record from which the key \<^verbatim>\<open>Activity\<close> is absent is
  displayed with the activity \<^verbatim>\<open>Unknown\<close>, and a record from which the key
  \<^verbatim>\<open>Prediction_Confidence\<close> is absent with the confidence 0 (which the format
  \<^verbatim>\<open>.2%\<close> prints as \<^verbatim>\<open>0.00%\<close>): in the summary table (for one row and for every row
  of the table) and in the anomaly details, a record that lacks the key is rendered
  exactly as the same record with the key set to that default, and a record that lacks
  both, with a timestamp that renders, is rendered without failure. For the rows of a
  table the key is absent when the table has no such column.
\<close>

theorem missing_fields_use_defaults:
  assumes "fmt_pct l (CInt 0) = Inr ''0.00%''"
  shows "(map_of r ''Activity'' = None \<longrightarrow>
            summary_row l idx r = summary_row l idx ((''Activity'', CStr ''Unknown'') # r) \<and>
            (\<forall>en. summary_row l idx r = Inr en \<longrightarrow> se_activity en = CStr ''Unknown'')) \<and>
         (map_of r ''Prediction_Confidence'' = None \<longrightarrow>
            summary_row l idx r = summary_row l idx ((''Prediction_Confidence'', CInt 0) # r) \<and>
            (\<forall>en. summary_row l idx r = Inr en \<longrightarrow> se_confidence en = ''0.00%'')) \<and>
         (anomaly_summary l 0 rows = Inr ens \<and> j < length rows \<longrightarrow>
            (map_of (rows ! j) ''Activity'' = None \<longrightarrow>
               se_activity (ens ! j) = CStr ''Unknown'') \<and>
            (map_of (rows ! j) ''Prediction_Confidence'' = None \<longrightarrow>
               se_confidence (ens ! j) = ''0.00%'')) \<and>
         (map_of r ''Activity'' = None \<and> map_of r ''Prediction_Confidence'' = None \<and>
          map_of r ''Timestamp'' = Some ts \<and> fmt_time l ts = Inr t \<and> notna ts \<longrightarrow>
            summary_row l idx r =
              Inr \<lparr>se_index = idx, se_time = t, se_activity = CStr ''Unknown'',
                   se_confidence = ''0.00%''\<rparr> \<and>
            anomaly_details l \<lparr>r_explanation = ex, r_anomaly = Val r, r_other_keys = ks\<rparr> =
              ([Details_header, St_metric ''Timestamp'' (CStr t),
                St_metric ''Activity'' (CStr ''Unknown''),
                St_metric ''Confidence'' (CStr ''0.00%'')], None)) \<and>
         (map_of r ''Activity'' = None \<longrightarrow>
            anomaly_details l \<lparr>r_explanation = ex, r_anomaly = Val r, r_other_keys = ks\<rparr> =
            anomaly_details l \<lparr>r_explanation = ex,
               r_anomaly = Val ((''Activity'', CStr ''Unknown'') # r), r_other_keys = ks\<rparr>) \<and>
         (map_of r ''Prediction_Confidence'' = None \<longrightarrow>
            anomaly_details l \<lparr>r_explanation = ex, r_anomaly = Val r, r_other_keys = ks\<rparr> =
            anomaly_details l \<lparr>r_explanation = ex,
               r_anomaly = Val ((''Prediction_Confidence'', CInt 0) # r), r_other_keys = ks\<rparr>)"
proof -
  have s1: "summary_row l idx r = summary_row l idx ((''Activity'', CStr ''Unknown'') # r)"
    if "map_of r ''Activity'' = None"
    using that
    by (simp add: summary_row_def row_get_def row_item_def Let_def
             split: option.splits sum.splits)
  have s2: "se_activity en = CStr ''Unknown''"
    if "map_of r ''Activity'' = None" "summary_row l idx r = Inr en" for en r idx
    using that
    by (auto simp: summary_row_def row_get_def row_item_def Let_def
             split: option.splits sum.splits if_splits)
  have s3: "summary_row l idx r = summary_row l idx ((''Prediction_Confidence'', CInt 0) # r)"
    if "map_of r ''Prediction_Confidence'' = None"
    using that
    by (simp add: summary_row_def row_get_def row_item_def Let_def
             split: option.splits sum.splits)
  have s4: "se_confidence en = ''0.00%''"
    if "map_of r ''Prediction_Confidence'' = None" "summary_row l idx r = Inr en" for en r idx
    using that assms
    by (auto simp: summary_row_def row_get_def row_item_def Let_def
             split: option.splits sum.splits if_splits)
  have s5: "summary_row l idx r =
              Inr \<lparr>se_index = idx, se_time = t, se_activity = CStr ''Unknown'',
                   se_confidence = ''0.00%''\<rparr> \<and>
            anomaly_details l \<lparr>r_explanation = ex, r_anomaly = Val r, r_other_keys = ks\<rparr> =
              ([Details_header, St_metric ''Timestamp'' (CStr t),
                St_metric ''Activity'' (CStr ''Unknown''),
                St_metric ''Confidence'' (CStr ''0.00%'')], None)"
    if "map_of r ''Activity'' = None \<and> map_of r ''Prediction_Confidence'' = None \<and>
          map_of r ''Timestamp'' = Some ts \<and> fmt_time l ts = Inr t \<and> notna ts"
    using that assms
    by (simp add: summary_row_def anomaly_details_def row_get_def row_item_def Let_def)
  have d1: "anomaly_details l \<lparr>r_explanation = ex, r_anomaly = Val r, r_other_keys = ks\<rparr> =
            anomaly_details l \<lparr>r_explanation = ex,
               r_anomaly = Val ((''Activity'', CStr ''Unknown'') # r), r_other_keys = ks\<rparr>"
    if "map_of r ''Activity'' = None"
    using that
    by (simp add: anomaly_details_def row_get_def Let_def split: option.splits sum.splits)
  have d2: "anomaly_details l \<lparr>r_explanation = ex, r_anomaly = Val r, r_other_keys = ks\<rparr> =
            anomaly_details l \<lparr>r_explanation = ex,
               r_anomaly = Val ((''Prediction_Confidence'', CInt 0) # r), r_other_keys = ks\<rparr>"
    if "map_of r ''Prediction_Confidence'' = None"
    using that
    by (simp add: anomaly_details_def row_get_def Let_def split: option.splits sum.splits)
  have t1: "(map_of (rows ! j) ''Activity'' = None \<longrightarrow>
               se_activity (ens ! j) = CStr ''Unknown'') \<and>
            (map_of (rows ! j) ''Prediction_Confidence'' = None \<longrightarrow>
               se_confidence (ens ! j) = ''0.00%'')"
    if "anomaly_summary l 0 rows = Inr ens \<and> j < length rows"
  proof -
    from that anomaly_summary_rows [of l 0 rows ens]
    have "summary_row l j (rows ! j) = Inr (ens ! j)" by simp
    then show ?thesis using s2 s4 by blast
  qed
  from s1 s2 s3 s4 s5 d1 d2 t1 show ?thesis by blast
qed

theorem missing_fields_use_defaults_witness:
  "fmt_pct example_lib (CInt 0) = Inr ''0.00%'' \<and>
   map_of [(''Timestamp'', CTime ''2011-06-03 07:00:00'')] ''Activity'' = None \<and>
   map_of [(''Timestamp'', CTime ''2011-06-03 07:00:00'')] ''Prediction_Confidence'' = None \<and>
   summary_row example_lib 4 [(''Timestamp'', CTime ''2011-06-03 07:00:00'')] =
     Inr \<lparr>se_index = 4, se_time = ''2011-06-03 07:00:00'', se_activity = CStr ''Unknown'',
          se_confidence = ''0.00%''\<rparr> \<and>
   anomaly_details example_lib
       \<lparr>r_explanation = Val ''report'',
        r_anomaly = Val [(''Timestamp'', CTime ''2011-06-03 07:00:00'')], r_other_keys = []\<rparr> =
     ([Details_header, St_metric ''Timestamp'' (CStr ''2011-06-03 07:00:00''),
       St_metric ''Activity'' (CStr ''Unknown''),
       St_metric ''Confidence'' (CStr ''0.00%'')], None)"
proof -
  let ?r = "[(''Timestamp'', CTime ''2011-06-03 07:00:00'')]"
  have h: "fmt_pct example_lib (CInt 0) = Inr ''0.00%''"
    by (simp add: example_lib_def)
  have pre: "map_of ?r ''Activity'' = None \<and> map_of ?r ''Prediction_Confidence'' = None \<and>
          map_of ?r ''Timestamp'' = Some (CTime ''2011-06-03 07:00:00'') \<and>
          fmt_time example_lib (CTime ''2011-06-03 07:00:00'') = Inr ''2011-06-03 07:00:00'' \<and>
          notna (CTime ''2011-06-03 07:00:00'')"
    by (simp add: example_lib_def notna_def)
  from missing_fields_use_defaults
         [OF h, of ?r 4 "[]" "[]" 0
            "CTime ''2011-06-03 07:00:00''" "''2011-06-03 07:00:00''" "Val ''report''" "[]"]
       pre h
  show ?thesis by blast
qed

text \<open>
  C7, as stated, fails: in a table that has the two columns, a record whose activity
  and confidence are missing holds \<^verbatim>\<open>NaN\<close> in both cells; \<^verbatim>\<open>get\<close> finds the key and
  returns the cell, and the summary table and the anomaly details show \<^verbatim>\<open>NaN\<close> and
  \<^verbatim>\<open>nan%\<close>, not \<^verbatim>\<open>Unknown\<close> and \<^verbatim>\<open>0.00%\<close>.
\<close>

theorem missing_fields_counterexample:
  "summary_row example_lib 0 nan_record =
     Inr \<lparr>se_index = 0, se_time = ''2011-06-01 08:15:00'', se_activity = CNaN,
          se_confidence = ''nan%''\<rparr> \<and>
   anomaly_details example_lib
       \<lparr>r_explanation = Val ''report'', r_anomaly = Val nan_record, r_other_keys = []\<rparr> =
     ([Details_header, St_metric ''Timestamp'' (CStr ''2011-06-01 08:15:00''),
       St_metric ''Activity'' CNaN, St_metric ''Confidence'' (CStr ''nan%'')], None)"
  by (simp add: summary_row_def anomaly_details_def nan_record_def example_lib_def
        row_get_def row_item_def notna_def)

section \<open>Attribution artifacts\<close>

lemma generate_starts:
  "\<exists>rest. fst (generate e x d i df s) = Spinner # Call_explain d i (gather_shap e) # rest"
  by (auto simp: generate_def Let_def split: sum.splits option.splits prod.splits)

text \<open>
  C8. When \<^verbatim>\<open>__main__\<close> cannot be imported, all four auxiliary arguments are \<^verbatim>\<open>None\<close>,
  and each artifact that \<^verbatim>\<open>__main__\<close> does not have is passed as \<^verbatim>\<open>None\<close>. Whatever
  the artifacts are, the handler calls the generator with them: pressing the button on
  a listed date always gives the call, and a generator that then returns a non-empty
  explanation has its result stored and its report shown. Missing artifacts never
  skip or fail the request.
\<close>

theorem explanation_proceeds_without_attribution:
  "(import_main e = None \<longrightarrow> gather_shap e = no_aux) \<and>
   (\<forall>m. import_main e = Some m \<longrightarrow>
      (m_shap_values m = None \<longrightarrow> aux_shap_values (gather_shap e) = None) \<and>
      (m_X m = None \<longrightarrow> aux_X (gather_shap e) = None) \<and>
      (m_explainer m = None \<longrightarrow> aux_explainer (gather_shap e) = None) \<and>
      (m_scaler m = None \<longrightarrow> aux_scaler (gather_shap e) = None)) \<and>
   (\<exists>rest. fst (generate e x d i df s) = Spinner # Call_explain d i (gather_shap e) # rest) \<and>
   (anomaly_summary (lib e) 0 rows = Inr sm \<and> generate_clicked u \<longrightarrow>
      Call_explain d (selectbox u [0..<length rows]) (gather_shap e)
        \<in> set (fst (show_anomalies e u x df d rows s))) \<and>
   (x d i df (gather_shap e) = Inr (Some r) \<and> r_explanation r = Val t \<and> t \<noteq> [] \<longrightarrow>
      ss_selected_anomaly (snd (generate e x d i df s)) = Val r \<and>
      Report t \<in> set (fst (generate e x d i df s)))"
proof -
  have none: "gather_shap e = no_aux" if "import_main e = None"
    using that by (simp add: gather_shap_def no_aux_def)
  have each: "(m_shap_values m = None \<longrightarrow> aux_shap_values (gather_shap e) = None) \<and>
      (m_X m = None \<longrightarrow> aux_X (gather_shap e) = None) \<and>
      (m_explainer m = None \<longrightarrow> aux_explainer (gather_shap e) = None) \<and>
      (m_scaler m = None \<longrightarrow> aux_scaler (gather_shap e) = None)"
    if "import_main e = Some m" for m
    using that by (simp add: gather_shap_def)
  have called: "Call_explain d (selectbox u [0..<length rows]) (gather_shap e)
              \<in> set (fst (show_anomalies e u x df d rows s))"
    if "anomaly_summary (lib e) 0 rows = Inr sm \<and> generate_clicked u"
  proof -
    from generate_starts obtain rest where
      "fst (generate e x d (selectbox u [0..<length rows]) df
              (s\<lparr>ss_anomalies := Val rows,
                 ss_selected_index := Val (selectbox u [0..<length rows])\<rparr>))
         = Spinner # Call_explain d (selectbox u [0..<length rows]) (gather_shap e) # rest"
      by blast
    with that show ?thesis
      by (auto simp: show_anomalies_def Let_def split: prod.splits)
  qed
  have stored: "ss_selected_anomaly (snd (generate e x d i df s)) = Val r \<and>
            Report t \<in> set (fst (generate e x d i df s))"
    if "x d i df (gather_shap e) = Inr (Some r) \<and> r_explanation r = Val t \<and> t \<noteq> []"
    using that
    by (auto simp: generate_def accepted_def dict_truthy_def Let_def
             split: prod.splits option.splits)
  from none each generate_starts [of e x d i df s] called stored show ?thesis by blast
qed

theorem explanation_proceeds_without_attribution_witness:
  "import_main example_env = None \<and>
   fst (generate example_env example_explain ''2011-06-01'' 1 example_store blank_session) =
     [Spinner, Call_explain ''2011-06-01'' 1 no_aux, Report ''ANOMALY ANALYSIS REPORT'',
      Details_header, St_metric ''Timestamp'' (CStr ''2011-06-01 12:30:00''),
      St_metric ''Activity'' (CStr ''Cooking''), St_metric ''Confidence'' (CStr ''91.00%'')] \<and>
   ss_selected_anomaly
     (snd (generate example_env example_explain ''2011-06-01'' 1 example_store blank_session)) =
     Val \<lparr>r_explanation = Val ''ANOMALY ANALYSIS REPORT'',
          r_anomaly = Val [(''Timestamp'', CTime ''2011-06-01 12:30:00''),
                           (''Activity'', CStr ''Cooking''),
                           (''Prediction_Confidence'', CFloat ''0.91'')],
          r_other_keys = []\<rparr>"
proof -
  have h: "import_main example_env = None"
    by (simp add: example_env_def)
  have aux: "gather_shap example_env = no_aux"
    using explanation_proceeds_without_attribution [of example_env] h by simp
  have l: "lib example_env = example_lib"
    by (simp add: example_env_def)
  show ?thesis
    using h
    by (simp add: generate_def aux l example_explain_def example_store_def on_date_def
          accepted_def dict_truthy_def anomaly_details_def example_lib_def
          row_get_def notna_def)
qed

section \<open>The index passed to the generator\<close>











section \<open>Saving the snapshot\<close>

text \<open>
  C10. \<^verbatim>\<open>save_for_streamlit\<close> never raises to its caller: whatever \<^verbatim>\<open>open\<close> and
  \<^verbatim>\<open>pickle.dump\<close> do, it returns normally; an exception raised inside is reported by a
  printed line that ends the output; and when neither \<^verbatim>\<open>full_pivot_df\<close> nor
  \<^verbatim>\<open>test_pivot_df\<close> is in its globals, it opens and writes no file.
\<close>

theorem save_for_streamlit_never_raises:
  "snd (save_for_streamlit e) = None \<and>
   (\<forall>m. snd (save_body e) = Some (PyException m) \<longrightarrow>
        last (fst (save_for_streamlit e)) = Printed (''Error: '' @ m)) \<and>
   (g_full_pivot_df e = None \<and> g_test_pivot_df e = None \<longrightarrow>
      \<not> list_ex writes_file (fst (save_for_streamlit e)))"
  by (auto simp: save_for_streamlit_def save_body_def save_table_def Let_def
           split: option.splits prod.splits pyexc.splits)

theorem save_for_streamlit_never_raises_witness:
  "snd (save_for_streamlit
          \<lparr>g_full_pivot_df = Some example_store, g_test_pivot_df = None,
           open_wb = (\<lambda>n. None),
           pickle_dump = (\<lambda>t n. Some (PyException ''PicklingError''))\<rparr>) = None \<and>
   last (fst (save_for_streamlit
          \<lparr>g_full_pivot_df = Some example_store, g_test_pivot_df = None,
           open_wb = (\<lambda>n. None),
           pickle_dump = (\<lambda>t n. Some (PyException ''PicklingError''))\<rparr>))
     = Printed ''Error: PicklingError'' \<and>
   \<not> list_ex writes_file (fst (save_for_streamlit
          \<lparr>g_full_pivot_df = None, g_test_pivot_df = None,
           open_wb = (\<lambda>n. None), pickle_dump = (\<lambda>t n. None)\<rparr>))"
  using save_for_streamlit_never_raises
          [of "\<lparr>g_full_pivot_df = Some example_store, g_test_pivot_df = None,
                open_wb = (\<lambda>n. None),
                pickle_dump = (\<lambda>t n. Some (PyException ''PicklingError''))\<rparr>"]
        save_for_streamlit_never_raises
          [of "\<lparr>g_full_pivot_df = None, g_test_pivot_df = None,
                open_wb = (\<lambda>n. None), pickle_dump = (\<lambda>t n. None)\<rparr>"]
  by (simp add: save_body_def save_table_def)

end
